theory Spec2Isabelle
  imports Complex_Main "HOL-Library.AList"
begin

section \<open>Python values\<close>

text \<open>
  The program is Python: attributes and arguments are dynamically typed. The values that
  reach the inventory are the primitives the command-line layer builds (strings, integers,
  floats, booleans, \<open>None\<close>), the members of the two enumerations and the time stamps of
  \<open>datetime.datetime.now()\<close>. A float is modelled by the real number it denotes: the code
  only compares floats with integer constants, which Python does exactly. A time stamp is
  the clock reading it was taken at. Dictionaries, classes and callables are not among the
  values: the inventory is specified for attributes of primitive type. The one place where
  a dictionary is an argument, a change of \<open>__dict__\<close>, has its own type of changes.
\<close>

datatype DeviceCategory = LAPTOP | LAB_EQUIPMENT | CONSUMABLE | APPLIANCE | PERIPHERAL

fun DeviceCategory_value :: "DeviceCategory \<Rightarrow> string" where
  "DeviceCategory_value LAPTOP = ''Laptop''"
| "DeviceCategory_value LAB_EQUIPMENT = ''Lab Equipment''"
| "DeviceCategory_value CONSUMABLE = ''Consumable''"
| "DeviceCategory_value APPLIANCE = ''Appliance''"
| "DeviceCategory_value PERIPHERAL = ''Peripheral''"

datatype DisposalStrategy =
  RELOCATE | REPURPOSE | MARKETPLACE | STRIP_COMPONENTS | RECYCLE | HAZARDOUS_DISPOSAL

fun DisposalStrategy_value :: "DisposalStrategy \<Rightarrow> string" where
  "DisposalStrategy_value RELOCATE = ''Relocate to Permanent Campus''"
| "DisposalStrategy_value REPURPOSE = ''Repurpose/Upcycle for Labs''"
| "DisposalStrategy_value MARKETPLACE = ''Sell on Marketplace''"
| "DisposalStrategy_value STRIP_COMPONENTS = ''Strip for Components''"
| "DisposalStrategy_value RECYCLE = ''Responsible Recycling''"
| "DisposalStrategy_value HAZARDOUS_DISPOSAL = ''Hazardous Material Disposal''"

datatype pyval =
  PyNone
| PyBool bool
| PyInt int
| PyFloat real
| PyStr string
| PyStrategy DisposalStrategy
| PyCategory DeviceCategory
| PyDatetime nat

datatype pyerror = TypeError | AttributeError | KeyError

text \<open>Truth value of an object in a condition (\<open>if x:\<close>, \<open>x and y\<close>, \<open>not x\<close>).\<close>

fun truthy :: "pyval \<Rightarrow> bool" where
  "truthy PyNone = False"
| "truthy (PyBool b) = b"
| "truthy (PyInt n) = (n \<noteq> 0)"
| "truthy (PyFloat r) = (r \<noteq> 0)"
| "truthy (PyStr s) = (s \<noteq> [])"
| "truthy (PyStrategy s) = True"
| "truthy (PyCategory c) = True"
| "truthy (PyDatetime t) = True"

text \<open>The numbers: \<open>bool\<close> is a subclass of \<open>int\<close>, and \<open>int\<close> and \<open>float\<close> compare by value.\<close>

fun as_number :: "pyval \<Rightarrow> real option" where
  "as_number (PyBool b) = Some (if b then 1 else 0)"
| "as_number (PyInt n) = Some (real_of_int n)"
| "as_number (PyFloat r) = Some r"
| "as_number PyNone = None"
| "as_number (PyStr s) = None"
| "as_number (PyStrategy s) = None"
| "as_number (PyCategory c) = None"
| "as_number (PyDatetime t) = None"

text \<open>
  \<open>x < n\<close> and \<open>x > n\<close> for an integer constant \<open>n\<close>: a number is compared by value,
  anything else raises \<open>TypeError\<close>.
\<close>

definition py_lt_int :: "pyval \<Rightarrow> int \<Rightarrow> pyerror + bool" where
  "py_lt_int x n =
     (case as_number x of None \<Rightarrow> Inl TypeError | Some r \<Rightarrow> Inr (r < real_of_int n))"

definition py_gt_int :: "pyval \<Rightarrow> int \<Rightarrow> pyerror + bool" where
  "py_gt_int x n =
     (case as_number x of None \<Rightarrow> Inl TypeError | Some r \<Rightarrow> Inr (r > real_of_int n))"

text \<open>\<open>x == y\<close> never raises on these values: numbers by value, everything else by kind and content.\<close>

definition py_eq :: "pyval \<Rightarrow> pyval \<Rightarrow> bool" where
  "py_eq x y =
     (case as_number x of
        Some r \<Rightarrow> (case as_number y of Some q \<Rightarrow> r = q | None \<Rightarrow> False)
      | None \<Rightarrow> (case as_number y of Some q \<Rightarrow> False | None \<Rightarrow> x = y))"

text \<open>
  \<open>a and b\<close> in a condition: \<open>b\<close> is evaluated only when \<open>a\<close> is true, so an exception of
  \<open>b\<close> is raised only then.
\<close>

definition py_and :: "pyerror + bool \<Rightarrow> pyerror + bool \<Rightarrow> pyerror + bool" where
  "py_and a b = (case a of Inl e \<Rightarrow> Inl e | Inr False \<Rightarrow> Inr False | Inr True \<Rightarrow> b)"

section \<open>CampusAsset\<close>

text \<open>
  The twelve attributes \<open>__init__\<close> assigns, and \<open>shadow\<close>: the other entries of the
  instance dictionary, which \<open>setattr\<close> creates when it is given the name of a method or of
  another attribute of the class.
\<close>

record CampusAsset =
  asset_id :: pyval
  name :: pyval
  model :: pyval
  category :: pyval
  age_years :: pyval
  battery_health :: pyval
  can_refurbish :: pyval
  is_hazardous :: pyval
  status :: pyval
  location :: pyval
  last_used :: pyval
  disposal_strategy :: pyval
  shadow :: "string \<rightharpoonup> pyval"

text \<open>The body of \<open>evaluate_disposal_strategy\<close>: an \<open>if\<close>/\<open>elif\<close> chain, first match wins.\<close>

definition evaluate_disposal_strategy :: "CampusAsset \<Rightarrow> pyerror + DisposalStrategy" where
  "evaluate_disposal_strategy self =
     (if truthy (is_hazardous self) then Inr HAZARDOUS_DISPOSAL
      else
       (case py_and (py_lt_int (age_years self) 3)
               (py_and (py_gt_int (battery_health self) 70) (Inr (truthy (can_refurbish self)))) of
          Inl e \<Rightarrow> Inl e
        | Inr True \<Rightarrow> Inr RELOCATE
        | Inr False \<Rightarrow>
       (case py_and (Inr (truthy (can_refurbish self)))
               (py_and (py_lt_int (age_years self) 5) (py_gt_int (battery_health self) 40)) of
          Inl e \<Rightarrow> Inl e
        | Inr True \<Rightarrow> Inr MARKETPLACE
        | Inr False \<Rightarrow>
       (if py_eq (category self) (PyStr (DeviceCategory_value LAB_EQUIPMENT))
           \<and> truthy (can_refurbish self)
        then Inr REPURPOSE
        else
       (case py_and (Inr (\<not> truthy (can_refurbish self))) (py_lt_int (age_years self) 7) of
          Inl e \<Rightarrow> Inl e
        | Inr True \<Rightarrow> Inr STRIP_COMPONENTS
        | Inr False \<Rightarrow> Inr RECYCLE)))))"

text \<open>
  The call \<open>asset.evaluate_disposal_strategy()\<close>: when an instance attribute of that name
  shadows the method, the call is a call of a value that is not callable.
\<close>

definition call_evaluate_disposal_strategy :: "CampusAsset \<Rightarrow> pyerror + DisposalStrategy" where
  "call_evaluate_disposal_strategy self =
     (case shadow self ''evaluate_disposal_strategy'' of
        Some v \<Rightarrow> Inl TypeError
      | None \<Rightarrow> evaluate_disposal_strategy self)"

text \<open>\<open>__init__\<close>: the constructor raises what the classifier raises, and then no object exists.\<close>

definition CampusAsset_init ::
  "pyval \<Rightarrow> pyval \<Rightarrow> pyval \<Rightarrow> pyval \<Rightarrow> pyval \<Rightarrow> pyval \<Rightarrow> pyval \<Rightarrow> pyval
     \<Rightarrow> pyerror + CampusAsset" where
  "CampusAsset_init aid nm mdl cat age bh cr hz =
     (let self = \<lparr> asset_id = aid, name = nm, model = mdl, category = cat, age_years = age,
                   battery_health = bh, can_refurbish = cr, is_hazardous = hz,
                   status = PyStr ''Dormant'', location = PyStr ''Storage'',
                   last_used = PyNone, disposal_strategy = PyNone, shadow = Map.empty \<rparr>
      in case evaluate_disposal_strategy self of
           Inl e \<Rightarrow> Inl e
         | Inr s \<Rightarrow> Inr (self\<lparr>disposal_strategy := PyStrategy s\<rparr>))"

text \<open>\<open>update_status\<close>; \<open>now\<close> is the reading of the clock.\<close>

definition update_status :: "pyval \<Rightarrow> nat \<Rightarrow> CampusAsset \<Rightarrow> CampusAsset" where
  "update_status new_status now self =
     (let self1 = self\<lparr>status := new_status\<rparr>
      in if py_eq new_status (PyStr ''In Use'') then self1\<lparr>last_used := PyDatetime now\<rparr>
         else self1)"

section \<open>Attribute access by name\<close>

text \<open>
  \<open>update_asset\<close> and \<open>search_assets\<close> reach the attributes through \<open>hasattr\<close>,
  \<open>getattr\<close> and \<open>setattr\<close>. An attribute is found in the instance dictionary first (the
  twelve attributes of \<open>__init__\<close>, then \<open>shadow\<close>), then in the class: the five methods of
  \<open>CampusAsset\<close>, its docstring and its module name (\<open>__main__\<close>, the program being run as
  a script), and what every class inherits from \<open>object\<close> (the names CPython 3.11 lists for
  an instance of a plain class).
\<close>

definition instance_dict :: "CampusAsset \<Rightarrow> (string \<times> pyval) list" where
  "instance_dict self =
     [(''asset_id'', asset_id self), (''name'', name self), (''model'', model self),
      (''category'', category self), (''age_years'', age_years self),
      (''battery_health'', battery_health self), (''can_refurbish'', can_refurbish self),
      (''is_hazardous'', is_hazardous self), (''status'', status self),
      (''location'', location self), (''last_used'', last_used self),
      (''disposal_strategy'', disposal_strategy self)]"

definition method_names :: "string list" where
  "method_names =
     [''__init__'', ''evaluate_disposal_strategy'', ''update_status'', ''to_dict'', ''__str__'']"

definition object_attribute_names :: "string list" where
  "object_attribute_names =
     [''__class__'', ''__delattr__'', ''__dict__'', ''__dir__'', ''__eq__'', ''__format__'',
      ''__ge__'', ''__getattribute__'', ''__getstate__'', ''__gt__'', ''__hash__'',
      ''__init_subclass__'', ''__le__'', ''__lt__'', ''__ne__'', ''__new__'', ''__reduce__'',
      ''__reduce_ex__'', ''__repr__'', ''__setattr__'', ''__sizeof__'', ''__subclasshook__'']"

text \<open>
  What an attribute lookup returns: a value, or an object of another kind (a bound method,
  the class, the instance dictionary), which is equal to no value of type \<open>pyval\<close>.
\<close>

datatype attr_value = Data pyval | Other_object

definition class_attribute :: "string \<Rightarrow> attr_value option" where
  "class_attribute k =
     (if k = ''__doc__''
      then Some (Data (PyStr ''Represents a single electronic device or equipment on campus''))
      else if k = ''__module__'' then Some (Data (PyStr ''__main__''))
      else if k = ''__weakref__'' then Some (Data PyNone)
      else if k \<in> set method_names \<or> k \<in> set object_attribute_names then Some Other_object
      else None)"

text \<open>\<open>getattr(asset, k)\<close>; \<open>None\<close> is the \<open>AttributeError\<close> of a name that is not found.\<close>

definition getattr :: "CampusAsset \<Rightarrow> string \<Rightarrow> attr_value option" where
  "getattr self k =
     (case map_of (instance_dict self) k of
        Some v \<Rightarrow> Some (Data v)
      | None \<Rightarrow> (case shadow self k of Some v \<Rightarrow> Some (Data v) | None \<Rightarrow> class_attribute k))"

definition hasattr :: "CampusAsset \<Rightarrow> string \<Rightarrow> bool" where
  "hasattr self k = (getattr self k \<noteq> None)"

text \<open>
  \<open>setattr(asset, k, v)\<close> for a value \<open>v\<close>: it stores into the instance dictionary, but
  \<open>__class__\<close> and \<open>__dict__\<close> accept only a class and a dictionary, and \<open>__weakref__\<close> is
  not writable.
\<close>

definition setattr :: "CampusAsset \<Rightarrow> string \<Rightarrow> pyval \<Rightarrow> pyerror + CampusAsset" where
  "setattr self k v =
     (if k = ''asset_id'' then Inr (self\<lparr>asset_id := v\<rparr>)
      else if k = ''name'' then Inr (self\<lparr>name := v\<rparr>)
      else if k = ''model'' then Inr (self\<lparr>model := v\<rparr>)
      else if k = ''category'' then Inr (self\<lparr>category := v\<rparr>)
      else if k = ''age_years'' then Inr (self\<lparr>age_years := v\<rparr>)
      else if k = ''battery_health'' then Inr (self\<lparr>battery_health := v\<rparr>)
      else if k = ''can_refurbish'' then Inr (self\<lparr>can_refurbish := v\<rparr>)
      else if k = ''is_hazardous'' then Inr (self\<lparr>is_hazardous := v\<rparr>)
      else if k = ''status'' then Inr (self\<lparr>status := v\<rparr>)
      else if k = ''location'' then Inr (self\<lparr>location := v\<rparr>)
      else if k = ''last_used'' then Inr (self\<lparr>last_used := v\<rparr>)
      else if k = ''disposal_strategy'' then Inr (self\<lparr>disposal_strategy := v\<rparr>)
      else if k = ''__class__'' \<or> k = ''__dict__'' then Inl TypeError
      else if k = ''__weakref__'' then Inl AttributeError
      else Inr (self\<lparr>shadow := (shadow self)(k \<mapsto> v)\<rparr>))"

text \<open>\<open>getattr(asset, k) != v\<close>.\<close>

definition attr_ne :: "attr_value \<Rightarrow> pyval \<Rightarrow> bool" where
  "attr_ne r v = (case r of Data x \<Rightarrow> \<not> py_eq x v | Other_object \<Rightarrow> True)"

text \<open>\<open>x.value\<close>: the members of the two enumerations have it, no other value has.\<close>

definition enum_value :: "pyval \<Rightarrow> pyerror + string" where
  "enum_value x =
     (case x of
        PyStrategy s \<Rightarrow> Inr (DisposalStrategy_value s)
      | PyCategory c \<Rightarrow> Inr (DeviceCategory_value c)
      | _ \<Rightarrow> Inl AttributeError)"

text \<open>\<open>to_dict\<close>: eleven entries; \<open>last_used\<close> is not among them.\<close>

definition to_dict :: "CampusAsset \<Rightarrow> pyerror + (string \<times> pyval) list" where
  "to_dict self =
     (case enum_value (disposal_strategy self) of
        Inl e \<Rightarrow> Inl e
      | Inr s \<Rightarrow>
          Inr [(''asset_id'', asset_id self), (''name'', name self), (''model'', model self),
               (''category'', category self), (''age_years'', age_years self),
               (''battery_health'', battery_health self),
               (''can_refurbish'', can_refurbish self), (''is_hazardous'', is_hazardous self),
               (''status'', status self), (''location'', location self),
               (''disposal_strategy'', PyStr s)])"

definition call_to_dict :: "CampusAsset \<Rightarrow> pyerror + (string \<times> pyval) list" where
  "call_to_dict self =
     (case shadow self ''to_dict'' of Some v \<Rightarrow> Inl TypeError | None \<Rightarrow> to_dict self)"

section \<open>CampusInventory\<close>

text \<open>
  \<open>assets\<close> is a Python dictionary with string keys: an association list in insertion
  order, in which \<open>AList.update\<close> overwrites in place or appends and \<open>AList.delete\<close>
  removes. \<open>next_id\<close> starts at 1 and is only ever incremented.
\<close>

record CampusInventory =
  assets :: "(string \<times> CampusAsset) list"
  next_id :: nat
  marketplace_items :: "pyval list"
  components_library :: "pyval list"

definition CampusInventory_init :: CampusInventory where
  "CampusInventory_init =
     \<lparr> assets = [], next_id = 1, marketplace_items = [], components_library = [] \<rparr>"

text \<open>The format \<open>f"ASSET-{n:04d}"\<close>: decimal digits, padded with zeros to four.\<close>

definition digit_char :: "nat \<Rightarrow> char" where
  "digit_char d = ''0123456789'' ! d"

function str_nat :: "nat \<Rightarrow> string" where
  "str_nat n = (if n < 10 then [digit_char n] else str_nat (n div 10) @ [digit_char (n mod 10)])"
  by pat_completeness auto
termination
  by (relation "measure id") auto

declare str_nat.simps [simp del]

definition format_04d :: "nat \<Rightarrow> string" where
  "format_04d n = (let s = str_nat n in replicate (4 - length s) (CHR ''0'') @ s)"

definition format_asset_id :: "nat \<Rightarrow> string" where
  "format_asset_id n = ''ASSET-'' @ format_04d n"

text \<open>\<open>_process_asset\<close>: only the Marketplace branch changes the state, the others print.\<close>

definition process_asset :: "CampusAsset \<Rightarrow> CampusInventory \<Rightarrow> CampusInventory" where
  "process_asset asset self =
     (if py_eq (disposal_strategy asset) (PyStrategy MARKETPLACE)
      then self\<lparr>marketplace_items := marketplace_items self @ [asset_id asset]\<rparr>
      else self)"

text \<open>
  \<open>add_asset\<close>: the counter is incremented before the constructor runs, so it stays
  incremented when the constructor raises.
\<close>

definition add_asset ::
  "pyval \<Rightarrow> pyval \<Rightarrow> pyval \<Rightarrow> pyval \<Rightarrow> pyval \<Rightarrow> pyval \<Rightarrow> pyval \<Rightarrow> CampusInventory
     \<Rightarrow> (pyerror + string) \<times> CampusInventory" where
  "add_asset nm mdl cat age bh cr hz self =
     (let aid = format_asset_id (next_id self);
          self1 = self\<lparr>next_id := next_id self + 1\<rparr>
      in case CampusAsset_init (PyStr aid) nm mdl cat age bh cr hz of
           Inl e \<Rightarrow> (Inl e, self1)
         | Inr asset \<Rightarrow>
             (Inr aid, process_asset asset (self1\<lparr>assets := AList.update aid asset (assets self1)\<rparr>)))"

text \<open>\<open>x in xs\<close> and \<open>xs.remove(x)\<close> on a list, for an \<open>x\<close> that is known to be in it.\<close>

definition py_in :: "pyval \<Rightarrow> pyval list \<Rightarrow> bool" where
  "py_in x xs = list_ex (\<lambda>y. py_eq y x) xs"

fun py_remove :: "pyval \<Rightarrow> pyval list \<Rightarrow> pyval list" where
  "py_remove x [] = []"
| "py_remove x (y # ys) = (if py_eq y x then ys else y # py_remove x ys)"

definition delete_asset :: "string \<Rightarrow> CampusInventory \<Rightarrow> bool \<times> CampusInventory" where
  "delete_asset aid self =
     (case map_of (assets self) aid of
        Some asset \<Rightarrow>
          (let self1 = self\<lparr>assets := AList.delete aid (assets self)\<rparr>
           in (True,
               if py_in (PyStr aid) (marketplace_items self1)
               then self1\<lparr>marketplace_items := py_remove (PyStr aid) (marketplace_items self1)\<rparr>
               else self1))
      | None \<Rightarrow> (False, self))"

text \<open>
  The loop of \<open>update_asset\<close> over \<open>kwargs.items()\<close>. It mutates the asset in place, so
  when \<open>setattr\<close> raises, the changes made so far stay: the loop returns the exception, if
  any, and the asset as it is then.
\<close>

fun update_fields :: "CampusAsset \<Rightarrow> (string \<times> pyval) list \<Rightarrow> pyerror option \<times> CampusAsset" where
  "update_fields asset [] = (None, asset)"
| "update_fields asset ((k, v) # kwargs) =
     (if hasattr asset k
      then (case setattr asset k v of
              Inl e \<Rightarrow> (Some e, asset)
            | Inr asset' \<Rightarrow> update_fields asset' kwargs)
      else update_fields asset kwargs)"

text \<open>
  \<open>update_asset(self, asset_id, **kwargs)\<close>: a keyword argument with the name of a
  parameter (\<open>self\<close>, \<open>asset_id\<close>) is not collected into \<open>kwargs\<close>; with the positional
  identifier already given, such a call raises \<open>TypeError\<close> before the body runs. The body
  works on the object stored in the map, so the model writes the asset back under its key.
\<close>

definition update_asset ::
  "string \<Rightarrow> (string \<times> pyval) list \<Rightarrow> CampusInventory \<Rightarrow> (pyerror + bool) \<times> CampusInventory" where
  "update_asset aid kwargs self =
     (if ''self'' \<in> set (map fst kwargs) \<or> ''asset_id'' \<in> set (map fst kwargs)
      then (Inl TypeError, self)
      else
       (case map_of (assets self) aid of
          None \<Rightarrow> (Inr False, self)
        | Some asset \<Rightarrow>
            (case update_fields asset kwargs of
               (Some e, asset1) \<Rightarrow>
                 (Inl e, self\<lparr>assets := AList.update aid asset1 (assets self)\<rparr>)
             | (None, asset1) \<Rightarrow>
                 (case call_evaluate_disposal_strategy asset1 of
                    Inl e \<Rightarrow> (Inl e, self\<lparr>assets := AList.update aid asset1 (assets self)\<rparr>)
                  | Inr s \<Rightarrow>
                      (Inr True,
                       self\<lparr>assets :=
                             AList.update aid (asset1\<lparr>disposal_strategy := PyStrategy s\<rparr>)
                               (assets self)\<rparr>)))))"

text \<open>
  \<open>update_asset\<close> when the changes may also hold \<open>__dict__ = d\<close> for a dictionary \<open>d\<close> with
  the twelve attributes and possibly other entries (a record of type \<open>CampusAsset\<close>).
  \<open>hasattr(asset, '__dict__')\<close> holds of every object, and \<open>setattr\<close> then replaces the
  whole instance dictionary; the loop goes on with the new one. \<open>update_asset\<close> above is
  this function on changes that assign values only.
\<close>

datatype change = Assign string pyval | Replace_dict CampusAsset

fun change_key :: "change \<Rightarrow> string" where
  "change_key (Assign k v) = k"
| "change_key (Replace_dict d) = ''__dict__''"

fun apply_changes :: "CampusAsset \<Rightarrow> change list \<Rightarrow> pyerror option \<times> CampusAsset" where
  "apply_changes asset [] = (None, asset)"
| "apply_changes asset (Assign k v # changes) =
     (if hasattr asset k
      then (case setattr asset k v of
              Inl e \<Rightarrow> (Some e, asset)
            | Inr asset' \<Rightarrow> apply_changes asset' changes)
      else apply_changes asset changes)"
| "apply_changes asset (Replace_dict d # changes) = apply_changes d changes"

definition update_asset_changes ::
  "string \<Rightarrow> change list \<Rightarrow> CampusInventory \<Rightarrow> (pyerror + bool) \<times> CampusInventory" where
  "update_asset_changes aid changes self =
     (if ''self'' \<in> set (map change_key changes) \<or> ''asset_id'' \<in> set (map change_key changes)
      then (Inl TypeError, self)
      else
       (case map_of (assets self) aid of
          None \<Rightarrow> (Inr False, self)
        | Some asset \<Rightarrow>
            (case apply_changes asset changes of
               (Some e, asset1) \<Rightarrow>
                 (Inl e, self\<lparr>assets := AList.update aid asset1 (assets self)\<rparr>)
             | (None, asset1) \<Rightarrow>
                 (case call_evaluate_disposal_strategy asset1 of
                    Inl e \<Rightarrow> (Inl e, self\<lparr>assets := AList.update aid asset1 (assets self)\<rparr>)
                  | Inr s \<Rightarrow>
                      (Inr True,
                       self\<lparr>assets :=
                             AList.update aid (asset1\<lparr>disposal_strategy := PyStrategy s\<rparr>)
                               (assets self)\<rparr>)))))"

definition get_asset :: "string \<Rightarrow> CampusInventory \<Rightarrow> CampusAsset option" where
  "get_asset aid self = map_of (assets self) aid"

text \<open>
  \<open>search_assets(self, **criteria)\<close>: the inner loop over the criteria, with its \<open>break\<close>,
  and the outer one over the assets. A criterion named \<open>self\<close> cannot be passed: that call
  raises \<open>TypeError\<close>.
\<close>

fun criteria_match :: "CampusAsset \<Rightarrow> (string \<times> pyval) list \<Rightarrow> bool" where
  "criteria_match asset [] = True"
| "criteria_match asset ((k, v) # criteria) =
     (case getattr asset k of
        Some r \<Rightarrow> (if attr_ne r v then False else criteria_match asset criteria)
      | None \<Rightarrow> criteria_match asset criteria)"

fun search_loop :: "CampusAsset list \<Rightarrow> (string \<times> pyval) list \<Rightarrow> CampusAsset list" where
  "search_loop [] criteria = []"
| "search_loop (asset # rest) criteria =
     (if criteria_match asset criteria then asset # search_loop rest criteria
      else search_loop rest criteria)"

definition search_assets ::
  "(string \<times> pyval) list \<Rightarrow> CampusInventory \<Rightarrow> pyerror + CampusAsset list" where
  "search_assets criteria self =
     (if ''self'' \<in> set (map fst criteria) then Inl TypeError
      else Inr (search_loop (map snd (assets self)) criteria))"

text \<open>
  \<open>check_procurement_prevention\<close>. The library method \<open>str.lower\<close> is a parameter,
  \<open>str_lower\<close>: the model says nothing about which letters it folds, so what is proved
  holds for Python's own, on all of Unicode (a string being the bytes of its encoding). A
  name that is not a string has no method \<open>lower\<close>. The comprehension evaluates its
  condition asset by asset.
\<close>

fun dormant_matches ::
  "(string \<Rightarrow> string) \<Rightarrow> CampusAsset list \<Rightarrow> string \<Rightarrow> pyval \<Rightarrow> pyerror + CampusAsset list" where
  "dormant_matches str_lower [] device_name device_category = Inr []"
| "dormant_matches str_lower (asset # rest) device_name device_category =
     (case name asset of
        PyStr n \<Rightarrow>
          (case dormant_matches str_lower rest device_name device_category of
             Inl e \<Rightarrow> Inl e
           | Inr ms \<Rightarrow>
               Inr (if str_lower n = str_lower device_name
                       \<and> py_eq (status asset) (PyStr ''Dormant'')
                       \<and> py_eq (category asset) device_category
                    then asset # ms else ms))
      | _ \<Rightarrow> Inl AttributeError)"

definition check_procurement_prevention ::
  "(string \<Rightarrow> string) \<Rightarrow> string \<Rightarrow> pyval \<Rightarrow> CampusInventory
     \<Rightarrow> pyerror + CampusAsset list option" where
  "check_procurement_prevention str_lower device_name device_category self =
     (case dormant_matches str_lower (map snd (assets self)) device_name device_category of
        Inl e \<Rightarrow> Inl e
      | Inr ms \<Rightarrow> Inr (if ms \<noteq> [] then Some ms else None))"

text \<open>
  \<open>str.lower\<close> on strings of ASCII characters, where it folds the letters A to Z and
  nothing else: the function the examples on ASCII strings are evaluated with.
\<close>

definition ascii_lower_char :: "char \<Rightarrow> char" where
  "ascii_lower_char c =
     (let n = (of_char c :: nat) in if 65 \<le> n \<and> n \<le> 90 then char_of (n + 32) else c)"

definition ascii_lower :: "string \<Rightarrow> string" where
  "ascii_lower s = map ascii_lower_char s"

text \<open>
  \<open>show_marketplace\<close> looks every listed identifier up with \<open>self.assets[item_id]\<close>; the
  model returns the assets it prints.
\<close>

fun lookup_items :: "(string \<times> CampusAsset) list \<Rightarrow> pyval list \<Rightarrow> pyerror + CampusAsset list" where
  "lookup_items m [] = Inr []"
| "lookup_items m (item_id # rest) =
     (case item_id of
        PyStr k \<Rightarrow>
          (case map_of m k of
             None \<Rightarrow> Inl KeyError
           | Some asset \<Rightarrow>
               (case lookup_items m rest of Inl e \<Rightarrow> Inl e | Inr as \<Rightarrow> Inr (asset # as)))
      | _ \<Rightarrow> Inl KeyError)"

definition show_marketplace :: "CampusInventory \<Rightarrow> pyerror + CampusAsset list" where
  "show_marketplace self = lookup_items (assets self) (marketplace_items self)"

text \<open>
  \<open>generate_migration_report\<close> builds the dictionary \<open>strategies\<close> and prints it; the model
  returns the dictionary.
\<close>

fun group_assets ::
  "CampusAsset list \<Rightarrow> (string \<times> CampusAsset list) list
     \<Rightarrow> pyerror + (string \<times> CampusAsset list) list" where
  "group_assets [] strategies = Inr strategies"
| "group_assets (asset # rest) strategies =
     (case enum_value (disposal_strategy asset) of
        Inl e \<Rightarrow> Inl e
      | Inr strategy \<Rightarrow>
          group_assets rest
            (case map_of strategies strategy of
               None \<Rightarrow> AList.update strategy [asset] strategies
             | Some listed \<Rightarrow> AList.update strategy (listed @ [asset]) strategies))"

definition generate_migration_report ::
  "CampusInventory \<Rightarrow> pyerror + (string \<times> CampusAsset list) list" where
  "generate_migration_report self = group_assets (map snd (assets self)) []"

text \<open>
  \<open>export_to_json\<close> builds the dictionary \<open>data\<close> and hands it to \<open>json.dump\<close>; the model
  returns \<open>data\<close>. \<open>now_iso\<close> is the string that \<open>datetime.datetime.now().isoformat()\<close>
  returns.
\<close>

datatype pydata = Atom pyval | PyList "pydata list" | PyDict "(string \<times> pydata) list"

fun assets_to_dict :: "(string \<times> CampusAsset) list \<Rightarrow> pyerror + (string \<times> pydata) list" where
  "assets_to_dict [] = Inr []"
| "assets_to_dict ((aid, asset) # rest) =
     (case call_to_dict asset of
        Inl e \<Rightarrow> Inl e
      | Inr d \<Rightarrow>
          (case assets_to_dict rest of
             Inl e \<Rightarrow> Inl e
           | Inr ds \<Rightarrow> Inr ((aid, PyDict (map (\<lambda>(k, v). (k, Atom v)) d)) # ds)))"

definition export_to_json :: "string \<Rightarrow> CampusInventory \<Rightarrow> pyerror + pydata" where
  "export_to_json now_iso self =
     (case assets_to_dict (assets self) of
        Inl e \<Rightarrow> Inl e
      | Inr ds \<Rightarrow>
          Inr (PyDict [(''assets'', PyDict ds),
                       (''marketplace'', PyList (map Atom (marketplace_items self))),
                       (''timestamp'', Atom (PyStr now_iso))]))"

section \<open>The public operations as one interface\<close>

text \<open>
  The eight public operations of \<open>CampusInventory\<close>, each with its arguments and with
  what the environment supplies to the call (\<open>str.lower\<close> for the procurement check, the
  clock's string for the export). \<open>perform\<close> runs one of them and returns the exception it
  raised, if any, and the inventory as it is afterwards; the value a query returns is
  dropped here. \<open>run\<close> performs a sequence of them, whether they raise or not, as a caller
  that catches exceptions can; \<open>run_completed\<close> performs a sequence in which no call raises.
\<close>

datatype operation =
  Add_asset pyval pyval pyval pyval pyval pyval pyval
| Update_asset string "(string \<times> pyval) list"
| Delete_asset string
| Search_assets "(string \<times> pyval) list"
| Get_asset string
| Check_procurement_prevention "string \<Rightarrow> string" string pyval
| Generate_migration_report
| Export_to_json string

definition raised :: "pyerror + 'a \<Rightarrow> pyerror option" where
  "raised r = (case r of Inl e \<Rightarrow> Some e | Inr v \<Rightarrow> None)"

fun perform :: "operation \<Rightarrow> CampusInventory \<Rightarrow> pyerror option \<times> CampusInventory" where
  "perform (Add_asset nm mdl cat age bh cr hz) self =
     (raised (fst (add_asset nm mdl cat age bh cr hz self)),
      snd (add_asset nm mdl cat age bh cr hz self))"
| "perform (Update_asset aid kwargs) self =
     (raised (fst (update_asset aid kwargs self)), snd (update_asset aid kwargs self))"
| "perform (Delete_asset aid) self = (None, snd (delete_asset aid self))"
| "perform (Search_assets criteria) self = (raised (search_assets criteria self), self)"
| "perform (Get_asset aid) self = (None, self)"
| "perform (Check_procurement_prevention str_lower device_name device_category) self =
     (raised (check_procurement_prevention str_lower device_name device_category self), self)"
| "perform Generate_migration_report self = (raised (generate_migration_report self), self)"
| "perform (Export_to_json now_iso) self = (raised (export_to_json now_iso self), self)"

fun run :: "operation list \<Rightarrow> CampusInventory \<Rightarrow> CampusInventory" where
  "run [] self = self"
| "run (opn # opns) self = run opns (snd (perform opn self))"

fun run_completed :: "operation list \<Rightarrow> CampusInventory \<Rightarrow> CampusInventory option" where
  "run_completed [] self = Some self"
| "run_completed (opn # opns) self =
     (case fst (perform opn self) of
        Some e \<Rightarrow> None
      | None \<Rightarrow> run_completed opns (snd (perform opn self)))"

text \<open>
  The first asset of the demonstration in the source's main program, added to an empty
  inventory: the concrete state the examples below start from.
\<close>

definition demo_inventory :: CampusInventory where
  "demo_inventory =
     snd (add_asset (PyStr ''Laptop'') (PyStr ''ThinkPad X1'') (PyStr ''Laptop'')
            (PyFloat (3 / 2)) (PyInt 85) (PyBool True) (PyBool False) CampusInventory_init)"

definition demo_asset :: CampusAsset where
  "demo_asset =
     \<lparr> asset_id = PyStr ''ASSET-0001'', name = PyStr ''Laptop'', model = PyStr ''ThinkPad X1'',
       category = PyStr ''Laptop'', age_years = PyFloat (3 / 2), battery_health = PyInt 85,
       can_refurbish = PyBool True, is_hazardous = PyBool False, status = PyStr ''Dormant'',
       location = PyStr ''Storage'', last_used = PyNone,
       disposal_strategy = PyStrategy RELOCATE, shadow = Map.empty \<rparr>"

section \<open>The properties, as predicates\<close>

text \<open>The derived strategy of an asset is the classifier's output on its current attributes.\<close>

definition strategy_current :: "CampusAsset \<Rightarrow> bool" where
  "strategy_current asset =
     (case evaluate_disposal_strategy asset of
        Inl e \<Rightarrow> False
      | Inr s \<Rightarrow> disposal_strategy asset = PyStrategy s)"

definition all_current :: "CampusInventory \<Rightarrow> bool" where
  "all_current self = list_all strategy_current (map snd (assets self))"

text \<open>
  A criterion \<open>(k, v)\<close> holds of an asset when the asset has no attribute \<open>k\<close> or its
  attribute \<open>k\<close> equals \<open>v\<close>.
\<close>

definition criterion_holds :: "CampusAsset \<Rightarrow> string \<times> pyval \<Rightarrow> bool" where
  "criterion_holds asset kv =
     (case getattr asset (fst kv) of None \<Rightarrow> True | Some r \<Rightarrow> \<not> attr_ne r (snd kv))"

text \<open>
  The three conditions of the procurement check, on an asset whose name is a string: the
  names agree once \<open>str.lower\<close> is applied to both, the status is \<open>Dormant\<close>, the categories
  are equal.
\<close>

definition name_is_str :: "CampusAsset \<Rightarrow> bool" where
  "name_is_str asset = (case name asset of PyStr n \<Rightarrow> True | _ \<Rightarrow> False)"

definition dormant_match ::
  "(string \<Rightarrow> string) \<Rightarrow> string \<Rightarrow> pyval \<Rightarrow> CampusAsset \<Rightarrow> bool" where
  "dormant_match str_lower device_name device_category asset =
     (case name asset of
        PyStr n \<Rightarrow>
          str_lower n = str_lower device_name \<and> status asset = PyStr ''Dormant''
          \<and> py_eq (category asset) device_category
      | _ \<Rightarrow> False)"

text \<open>
  The record the snapshot holds for an asset whose strategy is \<open>s\<close>, and the assets that
  \<open>to_dict\<close> can serialise: the method is not shadowed and the strategy is a member of
  \<open>DisposalStrategy\<close>.
\<close>

definition exported_asset :: "CampusAsset \<Rightarrow> DisposalStrategy \<Rightarrow> pydata" where
  "exported_asset asset s =
     PyDict [(''asset_id'', Atom (asset_id asset)), (''name'', Atom (name asset)),
             (''model'', Atom (model asset)), (''category'', Atom (category asset)),
             (''age_years'', Atom (age_years asset)),
             (''battery_health'', Atom (battery_health asset)),
             (''can_refurbish'', Atom (can_refurbish asset)),
             (''is_hazardous'', Atom (is_hazardous asset)),
             (''status'', Atom (status asset)), (''location'', Atom (location asset)),
             (''disposal_strategy'', Atom (PyStr (DisposalStrategy_value s)))]"

definition exportable :: "CampusAsset \<Rightarrow> bool" where
  "exportable asset =
     (shadow asset ''to_dict'' = None
      \<and> (case disposal_strategy asset of PyStrategy s \<Rightarrow> True | _ \<Rightarrow> False))"

definition exported_entry :: "string \<times> CampusAsset \<Rightarrow> string \<times> pydata" where
  "exported_entry ka =
     (fst ka,
      case disposal_strategy (snd ka) of
        PyStrategy s \<Rightarrow> exported_asset (snd ka) s
      | _ \<Rightarrow> PyDict [])"

definition dict_keys :: "pydata \<Rightarrow> string list" where
  "dict_keys d = (case d of PyDict kvs \<Rightarrow> map fst kvs | _ \<Rightarrow> [])"

text \<open>Reading a decimal numeral back: the inverse of the format of the identifiers.\<close>

definition read_nat :: "string \<Rightarrow> nat" where
  "read_nat s = foldl (\<lambda>acc c. 10 * acc + (of_char c - 48)) 0 s"

text \<open>Every stored asset carries, as its \<open>asset_id\<close>, the key it is stored under.\<close>

definition keys_are_ids :: "CampusInventory \<Rightarrow> bool" where
  "keys_are_ids self = list_all (\<lambda>ka. asset_id (snd ka) = PyStr (fst ka)) (assets self)"

text \<open>The operations that assign to \<open>marketplace_items\<close>.\<close>

definition modifies_index :: "operation \<Rightarrow> bool" where
  "modifies_index opn =
     (case opn of
        Add_asset nm mdl cat age bh cr hz \<Rightarrow> True
      | Delete_asset aid \<Rightarrow> True
      | _ \<Rightarrow> False)"

text \<open>
  The state of the marketplace index that \<open>delete_asset\<close> and \<open>show_marketplace\<close> rely
  on: no identifier twice, every identifier a key of the asset map, every key an
  identifier that \<open>add_asset\<close> has already issued, and (the map being a dictionary) no key
  twice.
\<close>

definition index_ok :: "CampusInventory \<Rightarrow> bool" where
  "index_ok self =
     (distinct (map fst (assets self))
      \<and> distinct (marketplace_items self)
      \<and> set (marketplace_items self) \<subseteq> PyStr ` fst ` set (assets self)
      \<and> fst ` set (assets self) \<subseteq> format_asset_id ` {n. n < next_id self})"

section \<open>The classifier as the specification words it\<close>

text \<open>
  The six rules of the specification, in order, over typed attributes; \<open>first_match\<close>
  returns the result of the first rule whose condition holds.
\<close>

fun first_match :: "(bool \<times> 'a) list \<Rightarrow> 'a \<Rightarrow> 'a" where
  "first_match [] d = d"
| "first_match ((c, r) # rules) d = (if c then r else first_match rules d)"

definition classify_rules ::
  "bool \<Rightarrow> real \<Rightarrow> int \<Rightarrow> bool \<Rightarrow> string \<Rightarrow> (bool \<times> DisposalStrategy) list" where
  "classify_rules isHazardous ageYears batteryHealth canRefurbish cat =
     [(isHazardous, HAZARDOUS_DISPOSAL),
      (ageYears < 3 \<and> batteryHealth > 70 \<and> canRefurbish, RELOCATE),
      (canRefurbish \<and> ageYears < 5 \<and> batteryHealth > 40, MARKETPLACE),
      (cat = ''Lab Equipment'' \<and> canRefurbish, REPURPOSE),
      (\<not> canRefurbish \<and> ageYears < 7, STRIP_COMPONENTS)]"

definition classify :: "bool \<Rightarrow> real \<Rightarrow> int \<Rightarrow> bool \<Rightarrow> string \<Rightarrow> DisposalStrategy" where
  "classify isHazardous ageYears batteryHealth canRefurbish cat =
     first_match (classify_rules isHazardous ageYears batteryHealth canRefurbish cat) RECYCLE"

section \<open>Properties of the classifier\<close>

lemma py_eq_PyStr [simp]: "py_eq x (PyStr s) = (x = PyStr s)"
  by (cases x) (auto simp: py_eq_def)

lemma py_eq_PyStr_left [simp]: "py_eq (PyStr s) x = (x = PyStr s)"
  by (cases x) (auto simp: py_eq_def)

text \<open>
  C1. On every combination of a boolean hazard flag, a real or integer age, an integer
  battery health, a boolean refurbish flag and a string category, whatever the other
  attributes of the asset are, the classifier returns (it never raises) exactly the
  strategy that first-match evaluation of the six rules gives; at the boundary values
  (age 3, 5, 7; battery health 70, 40) the strict comparisons fail and the next rules decide.
\<close>

theorem evaluate_disposal_strategy_first_match:
  "evaluate_disposal_strategy
     (self\<lparr>is_hazardous := PyBool h, age_years := PyFloat age, battery_health := PyInt bh,
            can_refurbish := PyBool cr, category := PyStr cat\<rparr>)
     = Inr (classify h age bh cr cat)
   \<and> evaluate_disposal_strategy
     (self\<lparr>is_hazardous := PyBool h, age_years := PyInt n, battery_health := PyInt bh,
            can_refurbish := PyBool cr, category := PyStr cat\<rparr>)
     = Inr (classify h (real_of_int n) bh cr cat)
   \<and> classify True age bh cr cat = HAZARDOUS_DISPOSAL
   \<and> classify False 3 71 True cat = MARKETPLACE
   \<and> classify False (299 / 100) 71 True cat = RELOCATE
   \<and> classify False 2 70 True cat = MARKETPLACE
   \<and> classify False 5 41 True ''Laptop'' = RECYCLE
   \<and> classify False 5 41 True ''Lab Equipment'' = REPURPOSE
   \<and> classify False 4 40 True ''Laptop'' = RECYCLE
   \<and> classify False 7 bh False cat = RECYCLE
   \<and> classify False (699 / 100) bh False cat = STRIP_COMPONENTS"
  by (simp add: evaluate_disposal_strategy_def classify_def classify_rules_def
        py_and_def py_lt_int_def py_gt_int_def split: bool.splits)

section \<open>Auxiliary facts\<close>

subsection \<open>The format of the identifiers is injective\<close>

lemma format_asset_id_1: "format_asset_id (Suc 0) = ''ASSET-0001''"
  by (simp add: format_asset_id_def format_04d_def str_nat.simps digit_char_def numeral_3_eq_3)

lemma of_char_digit_char: "d < 10 \<Longrightarrow> of_char (digit_char d) - 48 = d"
proof -
  assume "d < 10"
  then have "d \<in> {0, 1, 2, 3, 4, 5, 6, 7, 8, 9}" by auto
  then show ?thesis by (auto simp: digit_char_def)
qed

lemma read_nat_snoc: "read_nat (s @ [c]) = 10 * read_nat s + (of_char c - 48)"
  by (simp add: read_nat_def)

lemma read_nat_str_nat: "read_nat (str_nat n) = n"
proof (induction n rule: str_nat.induct)
  case (1 n)
  show ?case
  proof (cases "n < 10")
    case True
    then have "str_nat n = [digit_char n]" by (simp add: str_nat.simps)
    with True show ?thesis by (simp add: read_nat_def of_char_digit_char)
  next
    case False
    then have eq: "str_nat n = str_nat (n div 10) @ [digit_char (n mod 10)]"
      by (subst str_nat.simps) simp
    have "read_nat (str_nat (n div 10)) = n div 10" using 1 False by simp
    then show ?thesis by (simp add: eq read_nat_snoc of_char_digit_char)
  qed
qed

lemma read_nat_zeros: "read_nat (replicate k (CHR ''0'') @ s) = read_nat s"
  by (induction k) (simp_all add: read_nat_def)

lemma format_asset_id_inj: "format_asset_id n = format_asset_id m \<Longrightarrow> n = m"
proof -
  assume "format_asset_id n = format_asset_id m"
  then have "format_04d n = format_04d m" by (simp add: format_asset_id_def)
  then have "read_nat (format_04d n) = read_nat (format_04d m)" by simp
  then show ?thesis by (simp add: format_04d_def Let_def read_nat_zeros read_nat_str_nat)
qed

lemma format_asset_id_fresh:
  assumes "fst ` set al \<subseteq> format_asset_id ` {n. n < k}"
  shows "format_asset_id k \<notin> fst ` set al"
proof
  assume "format_asset_id k \<in> fst ` set al"
  with assms obtain n where "n < k" and "format_asset_id k = format_asset_id n" by auto
  then show False using format_asset_id_inj [of k n] by simp
qed

subsection \<open>Lists and dictionaries\<close>

lemma py_in_PyStr: "py_in (PyStr k) xs = (PyStr k \<in> set xs)"
  by (induction xs) (auto simp: py_in_def)

lemma py_remove_PyStr: "py_remove (PyStr k) xs = remove1 (PyStr k) xs"
  by (induction xs) auto

lemma list_all_update:
  "P v \<Longrightarrow> list_all P (map snd xs) \<Longrightarrow> list_all P (map snd (AList.update k v xs))"
  by (induction xs) auto

lemma list_all_delete:
  "list_all P (map snd xs) \<Longrightarrow> list_all P (map snd (AList.delete k xs))"
  by (induction xs) auto

lemma list_all_update_entry:
  "P (k, v) \<Longrightarrow> list_all P al \<Longrightarrow> list_all P (AList.update k v al)"
  by (induction al) auto

lemma list_all_delete_entry: "list_all P al \<Longrightarrow> list_all P (AList.delete k al)"
  by (induction al) auto

lemma list_all_map_of_entry: "list_all P al \<Longrightarrow> map_of al k = Some v \<Longrightarrow> P (k, v)"
  by (induction al) (auto split: if_splits)

lemma dom_update_present:
  "map_of al k = Some v \<Longrightarrow> fst ` set (AList.update k w al) = fst ` set al"
  by (auto simp: dom_update dest: map_of_SomeD intro: rev_image_eqI)

lemma map_fst_update_present:
  "map_of al k = Some v \<Longrightarrow> map fst (AList.update k w al) = map fst al"
  by (induction al) (auto split: if_splits)

lemma dom_delete: "fst ` set (AList.delete k al) = fst ` set al - {k}"
  by (induction al) auto

subsection \<open>The classifier and the attributes\<close>

lemma evaluate_disposal_strategy_cong:
  "is_hazardous a = is_hazardous b \<Longrightarrow> age_years a = age_years b
     \<Longrightarrow> battery_health a = battery_health b \<Longrightarrow> can_refurbish a = can_refurbish b
     \<Longrightarrow> category a = category b
     \<Longrightarrow> evaluate_disposal_strategy a = evaluate_disposal_strategy b"
  by (simp add: evaluate_disposal_strategy_def cong: sum.case_cong bool.case_cong if_cong)

lemma strategy_current_init:
  assumes "CampusAsset_init aid nm mdl cat age bh cr hz = Inr asset"
  shows "strategy_current asset"
proof -
  let ?self = "\<lparr> asset_id = aid, name = nm, model = mdl, category = cat, age_years = age,
                   battery_health = bh, can_refurbish = cr, is_hazardous = hz,
                   status = PyStr ''Dormant'', location = PyStr ''Storage'',
                   last_used = PyNone, disposal_strategy = PyNone, shadow = Map.empty \<rparr>"
  from assms obtain s where e: "evaluate_disposal_strategy ?self = Inr s"
    and a: "asset = ?self\<lparr>disposal_strategy := PyStrategy s\<rparr>"
    by (auto simp: CampusAsset_init_def Let_def split: sum.splits)
  have "evaluate_disposal_strategy asset = evaluate_disposal_strategy ?self"
    by (rule evaluate_disposal_strategy_cong) (simp_all add: a)
  with e a show ?thesis by (simp add: strategy_current_def)
qed

lemma strategy_current_recomputed:
  assumes "call_evaluate_disposal_strategy asset = Inr s"
  shows "strategy_current (asset\<lparr>disposal_strategy := PyStrategy s\<rparr>)"
proof -
  from assms have e: "evaluate_disposal_strategy asset = Inr s"
    by (auto simp: call_evaluate_disposal_strategy_def split: option.splits)
  have "evaluate_disposal_strategy (asset\<lparr>disposal_strategy := PyStrategy s\<rparr>)
          = evaluate_disposal_strategy asset"
    by (rule evaluate_disposal_strategy_cong) simp_all
  with e show ?thesis by (simp add: strategy_current_def)
qed

lemma asset_id_init:
  "CampusAsset_init aid nm mdl cat age bh cr hz = Inr asset \<Longrightarrow> asset_id asset = aid"
  by (auto simp: CampusAsset_init_def Let_def split: sum.splits)

lemma setattr_asset_id:
  "k \<noteq> ''asset_id'' \<Longrightarrow> setattr asset k v = Inr asset' \<Longrightarrow> asset_id asset' = asset_id asset"
  by (auto simp: setattr_def split: if_splits)

lemma update_fields_asset_id:
  "''asset_id'' \<notin> set (map fst kwargs)
     \<Longrightarrow> asset_id (snd (update_fields asset kwargs)) = asset_id asset"
proof (induction kwargs arbitrary: asset)
  case Nil
  then show ?case by simp
next
  case (Cons kv kwargs)
  obtain k v where kv: "kv = (k, v)" by (cases kv)
  with Cons.prems have k: "k \<noteq> ''asset_id''"
    and rest: "''asset_id'' \<notin> set (map fst kwargs)"
    by auto
  show ?case
  proof (cases "setattr asset k v")
    case (Inl e)
    then show ?thesis using kv Cons.IH [OF rest] by simp
  next
    case (Inr asset')
    with k have "asset_id asset' = asset_id asset" by (simp add: setattr_asset_id)
    then show ?thesis using kv Inr Cons.IH [OF rest, of asset'] Cons.IH [OF rest, of asset]
      by simp
  qed
qed

lemma assets_process_asset [simp]: "assets (process_asset asset self) = assets self"
  by (simp add: process_asset_def)

lemma criteria_match_list_all:
  "criteria_match asset criteria = list_all (criterion_holds asset) criteria"
  by (induction criteria) (auto simp: criterion_holds_def split: option.splits if_splits)

lemma search_loop_filter:
  "search_loop xs criteria = filter (\<lambda>a. criteria_match a criteria) xs"
  by (induction xs) auto

subsection \<open>The demonstration inventory, evaluated\<close>

lemma demo_inventory_eq:
  "demo_inventory =
     \<lparr> assets = [(''ASSET-0001'', demo_asset)], next_id = 2, marketplace_items = [],
       components_library = [] \<rparr>"
  by (simp add: demo_inventory_def demo_asset_def add_asset_def CampusInventory_init_def
        format_asset_id_1 CampusAsset_init_def evaluate_disposal_strategy_def py_and_def
        py_lt_int_def py_gt_int_def process_asset_def py_eq_def Let_def)

lemma demo_add_completes:
  "fst (add_asset (PyStr ''Laptop'') (PyStr ''ThinkPad X1'') (PyStr ''Laptop'')
          (PyFloat (3 / 2)) (PyInt 85) (PyBool True) (PyBool False) CampusInventory_init)
     = Inr ''ASSET-0001''"
  by (simp add: add_asset_def CampusInventory_init_def
        format_asset_id_1 CampusAsset_init_def evaluate_disposal_strategy_def py_and_def
        py_lt_int_def py_gt_int_def Let_def)


lemma demo_update_battery:
  "update_asset ''ASSET-0001'' [(''battery_health'', PyInt 50)] demo_inventory
     = (Inr True,
        demo_inventory\<lparr>assets :=
          [(''ASSET-0001'',
            demo_asset\<lparr>battery_health := PyInt 50, disposal_strategy := PyStrategy MARKETPLACE\<rparr>)]\<rparr>)"
  by (simp add: demo_inventory_eq demo_asset_def update_asset_def hasattr_def getattr_def
        instance_dict_def setattr_def call_evaluate_disposal_strategy_def
        evaluate_disposal_strategy_def py_and_def py_lt_int_def py_gt_int_def)

lemma demo_update_status:
  "update_asset ''ASSET-0001'' [(''status'', PyStr ''In Use'')] demo_inventory
     = (Inr True,
        demo_inventory\<lparr>assets := [(''ASSET-0001'', demo_asset\<lparr>status := PyStr ''In Use''\<rparr>)]\<rparr>)"
  by (simp add: demo_inventory_eq demo_asset_def update_asset_def hasattr_def getattr_def
        instance_dict_def setattr_def call_evaluate_disposal_strategy_def
        evaluate_disposal_strategy_def py_and_def py_lt_int_def py_gt_int_def)

lemma getattr_unknown: "getattr demo_asset ''color'' = None"
  by (simp add: getattr_def instance_dict_def demo_asset_def class_attribute_def
        method_names_def object_attribute_names_def)

subsection \<open>What the operations preserve\<close>

lemma all_current_add:
  "all_current self \<Longrightarrow> raised (fst (add_asset nm mdl cat age bh cr hz self)) = None
     \<Longrightarrow> all_current (snd (add_asset nm mdl cat age bh cr hz self))"
  by (auto simp: add_asset_def all_current_def raised_def Let_def
        intro!: list_all_update strategy_current_init split: sum.splits)

lemma all_current_update:
  "all_current self \<Longrightarrow> raised (fst (update_asset aid kwargs self)) = None
     \<Longrightarrow> all_current (snd (update_asset aid kwargs self))"
  by (auto simp: update_asset_def all_current_def raised_def
        intro!: list_all_update strategy_current_recomputed
        split: if_splits option.splits sum.splits prod.splits)

lemma all_current_delete:
  "all_current self \<Longrightarrow> all_current (snd (delete_asset aid self))"
  by (auto simp: delete_asset_def all_current_def Let_def intro!: list_all_delete
        split: option.splits)

lemma index_ok_init: "index_ok CampusInventory_init"
  by (simp add: index_ok_def CampusInventory_init_def)

lemma index_ok_add:
  assumes "index_ok self"
  shows "index_ok (snd (add_asset nm mdl cat age bh cr hz self))"
proof -
  let ?aid = "format_asset_id (next_id self)"
  from assms have fresh: "?aid \<notin> fst ` set (assets self)"
    by (auto simp: index_ok_def dest: format_asset_id_fresh)
  with assms have "PyStr ?aid \<notin> set (marketplace_items self)"
    by (auto simp: index_ok_def)
  with assms fresh show ?thesis
    by (auto simp: add_asset_def index_ok_def Let_def process_asset_def dom_update
          distinct_update asset_id_init less_Suc_eq split: sum.splits)
qed

lemma index_ok_update:
  "index_ok self \<Longrightarrow> index_ok (snd (update_asset aid kwargs self))"
  by (auto simp: update_asset_def index_ok_def dom_update_present distinct_update
        split: if_splits option.splits sum.splits prod.splits)

lemma index_ok_delete:
  "index_ok self \<Longrightarrow> index_ok (snd (delete_asset aid self))"
  by (auto simp: delete_asset_def index_ok_def Let_def py_in_PyStr py_remove_PyStr
        dom_delete distinct_delete split: option.splits)

lemma index_ok_perform: "index_ok self \<Longrightarrow> index_ok (snd (perform opn self))"
  by (cases opn) (simp_all add: index_ok_add index_ok_update index_ok_delete)

lemma index_ok_run: "index_ok self \<Longrightarrow> index_ok (run opns self)"
  by (induction opns arbitrary: self) (simp_all add: index_ok_perform)

lemma index_ok_reachable: "index_ok (run opns CampusInventory_init)"
  by (simp add: index_ok_run index_ok_init)

lemma keys_are_ids_add:
  "keys_are_ids self \<Longrightarrow> keys_are_ids (snd (add_asset nm mdl cat age bh cr hz self))"
  by (auto simp: add_asset_def keys_are_ids_def Let_def asset_id_init
        intro!: list_all_update_entry split: sum.splits)

lemma keys_are_ids_update:
  assumes "keys_are_ids self"
  shows "keys_are_ids (snd (update_asset aid kwargs self))"
proof (cases "''self'' \<in> set (map fst kwargs) \<or> ''asset_id'' \<in> set (map fst kwargs)")
  case True
  with assms show ?thesis by (simp add: update_asset_def)
next
  case False
  show ?thesis
  proof (cases "map_of (assets self) aid")
    case None
    with False assms show ?thesis by (simp add: update_asset_def)
  next
    case (Some asset)
    with assms have "asset_id asset = PyStr aid"
      using list_all_map_of_entry [of _ "assets self" aid asset]
      by (fastforce simp: keys_are_ids_def)
    moreover obtain e asset1 where u: "update_fields asset kwargs = (e, asset1)"
      by (cases "update_fields asset kwargs")
    moreover from False have "asset_id (snd (update_fields asset kwargs)) = asset_id asset"
      by (simp add: update_fields_asset_id)
    ultimately have "asset_id asset1 = PyStr aid" by simp
    with assms False Some u show ?thesis
      by (auto simp: update_asset_def keys_are_ids_def intro!: list_all_update_entry
            split: option.splits sum.splits)
  qed
qed

lemma keys_are_ids_delete:
  "keys_are_ids self \<Longrightarrow> keys_are_ids (snd (delete_asset aid self))"
  by (auto simp: delete_asset_def keys_are_ids_def Let_def intro!: list_all_delete_entry
        split: option.splits)

lemma keys_are_ids_perform: "keys_are_ids self \<Longrightarrow> keys_are_ids (snd (perform opn self))"
  by (cases opn) (simp_all add: keys_are_ids_add keys_are_ids_update keys_are_ids_delete)

lemma keys_are_ids_run: "keys_are_ids self \<Longrightarrow> keys_are_ids (run opns self)"
  by (induction opns arbitrary: self) (simp_all add: keys_are_ids_perform)

lemma keys_are_ids_init: "keys_are_ids CampusInventory_init"
  by (simp add: keys_are_ids_def CampusInventory_init_def)

lemma keys_are_ids_reachable: "keys_are_ids (run opns CampusInventory_init)"
  by (simp add: keys_are_ids_run keys_are_ids_init)

lemma marketplace_update_asset:
  "marketplace_items (snd (update_asset aid kwargs self)) = marketplace_items self"
  by (auto simp: update_asset_def split: option.splits sum.splits prod.splits)

lemma update_asset_keys:
  "map fst (assets (snd (update_asset aid kwargs self))) = map fst (assets self)"
  by (auto simp: update_asset_def map_fst_update_present
        split: option.splits sum.splits prod.splits)

lemma update_asset_asset_id:
  "map_option asset_id (map_of (assets (snd (update_asset aid kwargs self))) k)
     = map_option asset_id (map_of (assets self) k)"
proof (cases "''self'' \<in> set (map fst kwargs) \<or> ''asset_id'' \<in> set (map fst kwargs)")
  case True
  then show ?thesis by (simp add: update_asset_def)
next
  case False
  show ?thesis
  proof (cases "map_of (assets self) aid")
    case None
    with False show ?thesis by (simp add: update_asset_def)
  next
    case (Some asset)
    obtain e asset1 where u: "update_fields asset kwargs = (e, asset1)"
      by (cases "update_fields asset kwargs")
    moreover from False have "asset_id (snd (update_fields asset kwargs)) = asset_id asset"
      by (simp add: update_fields_asset_id)
    ultimately have "asset_id asset1 = asset_id asset" by simp
    with False Some u show ?thesis
      by (auto simp: update_asset_def update_conv' split: option.splits sum.splits)
  qed
qed

lemma add_asset_other_keys:
  "map_of (assets (snd (add_asset nm mdl cat age bh cr hz self))) k = map_of (assets self) k
   \<or> k = format_asset_id (next_id self)"
  by (auto simp: add_asset_def Let_def update_conv' split: sum.splits)

lemma lookup_items_succeeds:
  "set items \<subseteq> PyStr ` fst ` set al \<Longrightarrow> raised (lookup_items al items) = None"
proof (induction items)
  case Nil
  then show ?case by (simp add: raised_def)
next
  case (Cons x items)
  then obtain k where "x = PyStr k" and "k \<in> fst ` set al" by auto
  then obtain v where "map_of al k = Some v"
    by (metis domD dom_map_of_conv_image_fst)
  with Cons \<open>x = PyStr k\<close> show ?case by (auto simp: raised_def split: sum.splits)
qed


lemma dormant_matches_filter:
  "dormant_matches str_lower xs device_name device_category
     = (if list_all name_is_str xs
        then Inr (filter (dormant_match str_lower device_name device_category) xs)
        else Inl AttributeError)"
proof (induction xs)
  case Nil
  then show ?case by simp
next
  case (Cons a xs)
  show ?case
  proof (cases "name a")
    case (PyStr n)
    then have "name_is_str a" by (simp add: name_is_str_def)
    moreover from PyStr have "dormant_match str_lower device_name device_category a
        = (str_lower n = str_lower device_name \<and> py_eq (status a) (PyStr ''Dormant'')
           \<and> py_eq (category a) device_category)"
      by (simp add: dormant_match_def)
    ultimately show ?thesis using PyStr Cons by simp
  qed (simp_all add: name_is_str_def)
qed

lemma call_to_dict_exportable:
  assumes "shadow asset ''to_dict'' = None" and "disposal_strategy asset = PyStrategy s"
  shows "\<exists>d. call_to_dict asset = Inr d
            \<and> PyDict (map (\<lambda>(k, v). (k, Atom v)) d) = exported_asset asset s"
  using assms by (simp add: call_to_dict_def to_dict_def enum_value_def exported_asset_def)

lemma assets_to_dict_exportable:
  "list_all exportable (map snd al) \<Longrightarrow> assets_to_dict al = Inr (map exported_entry al)"
proof (induction al)
  case Nil
  then show ?case by simp
next
  case (Cons ka al)
  obtain aid asset where ka: "ka = (aid, asset)" by (cases ka)
  with Cons.prems have "exportable asset" by simp
  then obtain s where sh: "shadow asset ''to_dict'' = None"
    and ds: "disposal_strategy asset = PyStrategy s"
    by (auto simp: exportable_def split: pyval.splits)
  from call_to_dict_exportable [OF sh ds] obtain d where d: "call_to_dict asset = Inr d"
    and e: "PyDict (map (\<lambda>(k, v). (k, Atom v)) d) = exported_asset asset s" by blast
  from Cons have "assets_to_dict al = Inr (map exported_entry al)" by simp
  with ka d e ds show ?case by (simp add: exported_entry_def)
qed

lemma demo_exportable: "list_all exportable (map snd (assets demo_inventory))"
  by (simp add: demo_inventory_eq demo_asset_def exportable_def)

section \<open>The derived strategy is never stale\<close>

lemma all_current_init: "all_current CampusInventory_init"
  by (simp add: all_current_def CampusInventory_init_def)

lemma all_current_perform:
  assumes "all_current self" and "fst (perform opn self) = None"
  shows "all_current (snd (perform opn self))"
proof (cases opn)
  case (Add_asset nm mdl cat age bh cr hz)
  with assms show ?thesis using all_current_add [of self nm mdl cat age bh cr hz] by auto
next
  case (Update_asset aid kwargs)
  with assms show ?thesis using all_current_update [of self aid kwargs] by auto
next
  case (Delete_asset aid)
  with assms show ?thesis using all_current_delete [of self aid] by auto
qed (use assms in auto)

lemma all_current_run_completed:
  "all_current self \<Longrightarrow> run_completed opns self = Some self' \<Longrightarrow> all_current self'"
proof (induction opns arbitrary: self)
  case Nil
  then show ?case by simp
next
  case (Cons opn opns)
  from Cons.prems(2) have c: "fst (perform opn self) = None"
    and r: "run_completed opns (snd (perform opn self)) = Some self'"
    by (auto split: option.splits)
  from Cons.prems(1) c have "all_current (snd (perform opn self))"
    by (rule all_current_perform)
  from Cons.IH [OF this r] show ?case .
qed

lemma demo_update_raises:
  "update_asset ''ASSET-0001''
          [(''battery_health'', PyInt 50), (''__class__'', PyStr ''x'')] demo_inventory
     = (Inl TypeError,
        demo_inventory\<lparr>assets := [(''ASSET-0001'', demo_asset\<lparr>battery_health := PyInt 50\<rparr>)]\<rparr>)"
  by (simp add: demo_inventory_eq demo_asset_def update_asset_def hasattr_def getattr_def
        instance_dict_def setattr_def class_attribute_def method_names_def
        object_attribute_names_def)

lemma run_demo_stale:
  "run [Add_asset (PyStr ''Laptop'') (PyStr ''ThinkPad X1'') (PyStr ''Laptop'')
          (PyFloat (3 / 2)) (PyInt 85) (PyBool True) (PyBool False),
        Update_asset ''ASSET-0001''
          [(''battery_health'', PyInt 50), (''__class__'', PyStr ''x'')]]
       CampusInventory_init
     = demo_inventory\<lparr>assets := [(''ASSET-0001'', demo_asset\<lparr>battery_health := PyInt 50\<rparr>)]\<rparr>"
proof -
  have "run [Add_asset (PyStr ''Laptop'') (PyStr ''ThinkPad X1'') (PyStr ''Laptop'')
          (PyFloat (3 / 2)) (PyInt 85) (PyBool True) (PyBool False),
        Update_asset ''ASSET-0001''
          [(''battery_health'', PyInt 50), (''__class__'', PyStr ''x'')]]
       CampusInventory_init
     = snd (update_asset ''ASSET-0001''
              [(''battery_health'', PyInt 50), (''__class__'', PyStr ''x'')] demo_inventory)"
    by (simp add: demo_inventory_def)
  then show ?thesis by (simp add: demo_update_raises)
qed

text \<open>
  C2, the claim as stated fails. After \<open>add_asset\<close> of the demonstration asset, the call
  \<open>update_asset('ASSET-0001', battery_health=50, __class__='x')\<close> assigns the battery
  health and then raises \<open>TypeError\<close> before the strategy is recomputed. In the state this
  leaves, \<open>get_asset\<close> completes, and the asset in the map has the strategy Relocate while
  the classifier gives Marketplace for its attributes.
\<close>

theorem strategy_stale_after_raise_counterexample:
  "perform (Get_asset ''ASSET-0001'')
     (run [Add_asset (PyStr ''Laptop'') (PyStr ''ThinkPad X1'') (PyStr ''Laptop'')
             (PyFloat (3 / 2)) (PyInt 85) (PyBool True) (PyBool False),
           Update_asset ''ASSET-0001''
             [(''battery_health'', PyInt 50), (''__class__'', PyStr ''x'')]]
        CampusInventory_init)
     = (None, demo_inventory\<lparr>assets :=
                [(''ASSET-0001'', demo_asset\<lparr>battery_health := PyInt 50\<rparr>)]\<rparr>)
   \<and> disposal_strategy (demo_asset\<lparr>battery_health := PyInt 50\<rparr>) = PyStrategy RELOCATE
   \<and> evaluate_disposal_strategy (demo_asset\<lparr>battery_health := PyInt 50\<rparr>) = Inr MARKETPLACE
   \<and> \<not> all_current (demo_inventory\<lparr>assets :=
                [(''ASSET-0001'', demo_asset\<lparr>battery_health := PyInt 50\<rparr>)]\<rparr>)"
proof -
  have e: "evaluate_disposal_strategy (demo_asset\<lparr>battery_health := PyInt 50\<rparr>) = Inr MARKETPLACE"
    by (simp add: demo_asset_def evaluate_disposal_strategy_def py_and_def py_lt_int_def
          py_gt_int_def)
  have d: "disposal_strategy (demo_asset\<lparr>battery_health := PyInt 50\<rparr>) = PyStrategy RELOCATE"
    by (simp add: demo_asset_def)
  have "\<not> all_current (demo_inventory\<lparr>assets :=
                [(''ASSET-0001'', demo_asset\<lparr>battery_health := PyInt 50\<rparr>)]\<rparr>)"
    by (simp add: all_current_def strategy_current_def e d)
  with e d show ?thesis unfolding run_demo_stale by simp
qed

text \<open>
  C2, as the code behaves. In every state reached from the empty inventory by public
  operations that all completed (none of the calls raised), every asset's
  \<open>disposal_strategy\<close> is the classifier's output on that asset's current attributes.
\<close>

theorem strategy_current_when_completed:
  assumes "run_completed opns CampusInventory_init = Some self"
  shows "all_current self"
  using all_current_init assms by (rule all_current_run_completed)

theorem strategy_current_when_completed_witness:
  "run_completed
     [Add_asset (PyStr ''Laptop'') (PyStr ''ThinkPad X1'') (PyStr ''Laptop'')
        (PyFloat (3 / 2)) (PyInt 85) (PyBool True) (PyBool False),
      Update_asset ''ASSET-0001'' [(''battery_health'', PyInt 50)]]
     CampusInventory_init
     = Some (demo_inventory\<lparr>assets :=
          [(''ASSET-0001'',
            demo_asset\<lparr>battery_health := PyInt 50, disposal_strategy := PyStrategy MARKETPLACE\<rparr>)]\<rparr>)
   \<and> all_current (demo_inventory\<lparr>assets :=
          [(''ASSET-0001'',
            demo_asset\<lparr>battery_health := PyInt 50, disposal_strategy := PyStrategy MARKETPLACE\<rparr>)]\<rparr>)"
proof -
  have u: "snd (update_asset ''ASSET-0001'' [(''battery_health'', PyInt 50)]
                 (snd (add_asset (PyStr ''Laptop'') (PyStr ''ThinkPad X1'') (PyStr ''Laptop'')
                         (PyFloat (3 / 2)) (PyInt 85) (PyBool True) (PyBool False)
                         CampusInventory_init)))
     = demo_inventory\<lparr>assets :=
          [(''ASSET-0001'',
            demo_asset\<lparr>battery_health := PyInt 50, disposal_strategy := PyStrategy MARKETPLACE\<rparr>)]\<rparr>"
    unfolding demo_inventory_def [symmetric] by (simp add: demo_update_battery)
  have f: "fst (update_asset ''ASSET-0001'' [(''battery_health'', PyInt 50)]
                 (snd (add_asset (PyStr ''Laptop'') (PyStr ''ThinkPad X1'') (PyStr ''Laptop'')
                         (PyFloat (3 / 2)) (PyInt 85) (PyBool True) (PyBool False)
                         CampusInventory_init)))
     = Inr True"
    unfolding demo_inventory_def [symmetric] by (simp add: demo_update_battery)
  have h: "run_completed
     [Add_asset (PyStr ''Laptop'') (PyStr ''ThinkPad X1'') (PyStr ''Laptop'')
        (PyFloat (3 / 2)) (PyInt 85) (PyBool True) (PyBool False),
      Update_asset ''ASSET-0001'' [(''battery_health'', PyInt 50)]]
     CampusInventory_init
     = Some (demo_inventory\<lparr>assets :=
          [(''ASSET-0001'',
            demo_asset\<lparr>battery_health := PyInt 50, disposal_strategy := PyStrategy MARKETPLACE\<rparr>)]\<rparr>)"
    by (simp add: demo_add_completes raised_def u f)
  from strategy_current_when_completed [OF h] h show ?thesis by simp
qed

section \<open>Searching\<close>

text \<open>
  C3, the claim as stated fails: \<open>color\<close> is no attribute of the demonstration asset, and
  a search on it still returns the asset.
\<close>

theorem search_unknown_field_counterexample:
  "getattr demo_asset ''color'' = None
   \<and> search_assets [(''color'', PyStr ''red'')] demo_inventory = Inr [demo_asset]"
  by (simp add: getattr_unknown search_assets_def demo_inventory_eq)

text \<open>
  C3, as the code behaves. \<open>search_assets\<close> returns, in the order of the map, exactly the
  assets of which every criterion holds: a criterion on a name the asset has as an attribute
  holds when the attribute equals the value (so a criterion on \<open>status\<close> compares the
  status), a criterion on any other name is skipped; empty criteria match every asset. (A
  criterion named \<open>self\<close> cannot be passed.)
\<close>

theorem search_assets_matches:
  "search_assets criteria self
     = (if ''self'' \<in> set (map fst criteria) then Inl TypeError
        else Inr (filter (\<lambda>asset. list_all (criterion_holds asset) criteria)
                    (map snd (assets self))))
   \<and> search_assets [] self = Inr (map snd (assets self))
   \<and> criterion_holds asset (''status'', v) = py_eq (status asset) v
   \<and> criterion_holds asset (k, v)
       = (case getattr asset k of None \<Rightarrow> True | Some r \<Rightarrow> \<not> attr_ne r v)"
proof -
  have "search_assets criteria self
     = (if ''self'' \<in> set (map fst criteria) then Inl TypeError
        else Inr (filter (\<lambda>asset. list_all (criterion_holds asset) criteria)
                    (map snd (assets self))))"
    by (simp add: search_assets_def search_loop_filter criteria_match_list_all)
  moreover have "search_assets [] self = Inr (map snd (assets self))"
    by (simp add: search_assets_def search_loop_filter)
  moreover have "criterion_holds asset (''status'', v) = py_eq (status asset) v"
    by (simp add: criterion_holds_def getattr_def instance_dict_def attr_ne_def)
  moreover have "criterion_holds asset (k, v)
       = (case getattr asset k of None \<Rightarrow> True | Some r \<Rightarrow> \<not> attr_ne r v)"
    by (cases "getattr asset k") (simp_all add: criterion_holds_def)
  ultimately show ?thesis by blast
qed

section \<open>The procurement check\<close>

text \<open>
  C4, the claim as stated fails: with no dormant printer in the inventory the check returns
  \<open>None\<close>, not an empty list.
\<close>

theorem check_procurement_prevention_counterexample:
  "filter (dormant_match ascii_lower ''Printer'' (PyStr ''Peripheral''))
     (map snd (assets demo_inventory)) = []
   \<and> check_procurement_prevention ascii_lower ''Printer'' (PyStr ''Peripheral'') demo_inventory
       = Inr None"
  by (simp add: check_procurement_prevention_def demo_inventory_eq demo_asset_def
        dormant_match_def)

text \<open>
  C4, as the code behaves, for \<open>str.lower\<close> as the library defines it (any function
  \<open>str_lower\<close>). When every asset's name is a string, the check returns the assets, in the
  order of the map, whose name and the device name are equal after \<open>str.lower\<close>, whose
  status is \<open>Dormant\<close> and whose category equals the device category, if there is one, and
  \<open>None\<close> if there is none; when some name is not a string it raises \<open>AttributeError\<close>.
\<close>

theorem check_procurement_prevention_matches:
  "check_procurement_prevention str_lower device_name device_category self
     = (if list_all name_is_str (map snd (assets self))
        then Inr (if filter (dormant_match str_lower device_name device_category)
                       (map snd (assets self)) = []
                  then None
                  else Some (filter (dormant_match str_lower device_name device_category)
                               (map snd (assets self))))
        else Inl AttributeError)"
  by (simp add: check_procurement_prevention_def dormant_matches_filter)

section \<open>The status and the time of last use\<close>

text \<open>
  C5, evaluated on the code. \<open>update_asset\<close> with \<open>status = "In Use"\<close> on the demonstration
  asset succeeds and sets the status, and \<open>last_used\<close> is still \<open>None\<close> afterwards: the
  status is assigned by \<open>setattr\<close>. The method \<open>update_status\<close>, which no operation calls,
  stamps \<open>last_used\<close> on the same asset with the clock reading.
\<close>

theorem update_asset_in_use_leaves_last_used:
  "fst (update_asset ''ASSET-0001'' [(''status'', PyStr ''In Use'')] demo_inventory) = Inr True
   \<and> map_option status
        (get_asset ''ASSET-0001''
           (snd (update_asset ''ASSET-0001'' [(''status'', PyStr ''In Use'')] demo_inventory)))
       = Some (PyStr ''In Use'')
   \<and> map_option last_used
        (get_asset ''ASSET-0001''
           (snd (update_asset ''ASSET-0001'' [(''status'', PyStr ''In Use'')] demo_inventory)))
       = Some PyNone
   \<and> last_used (update_status (PyStr ''In Use'') 1000 demo_asset) = PyDatetime 1000"
proof -
  have "last_used demo_asset = PyNone" by (simp add: demo_asset_def)
  then show ?thesis
    unfolding demo_update_status by (simp add: get_asset_def update_status_def)
qed

section \<open>The identifier of an asset\<close>

lemma apply_changes_assign:
  "apply_changes asset (map (\<lambda>kv. Assign (fst kv) (snd kv)) kwargs) = update_fields asset kwargs"
  by (induction kwargs arbitrary: asset) (auto split: sum.splits)

lemma change_key_assign:
  "map change_key (map (\<lambda>kv. Assign (fst kv) (snd kv)) kwargs) = map fst kwargs"
  by (induction kwargs) auto

lemma update_asset_changes_assign:
  "update_asset_changes aid (map (\<lambda>kv. Assign (fst kv) (snd kv)) kwargs) self
     = update_asset aid kwargs self"
  unfolding update_asset_changes_def update_asset_def apply_changes_assign change_key_assign
  by (rule refl)

lemma demo_replace_dict:
  "update_asset_changes ''ASSET-0001''
     [Replace_dict (demo_asset\<lparr>asset_id := PyStr ''HACKED''\<rparr>)] demo_inventory
     = (Inr True,
        demo_inventory\<lparr>assets := [(''ASSET-0001'', demo_asset\<lparr>asset_id := PyStr ''HACKED''\<rparr>)]\<rparr>)"
  by (simp add: demo_inventory_eq demo_asset_def update_asset_changes_def
        call_evaluate_disposal_strategy_def evaluate_disposal_strategy_def py_and_def
        py_lt_int_def py_gt_int_def)

text \<open>
  C6, the claim as stated fails. The call
  \<open>update_asset('ASSET-0001', __dict__={'asset_id': 'HACKED', ...})\<close>, the dictionary holding
  the other eleven attributes of the demonstration asset as they are, returns \<open>True\<close>, and
  the asset stored under \<open>ASSET-0001\<close> then carries the identifier \<open>HACKED\<close>.
\<close>

theorem update_asset_replaces_asset_id_counterexample:
  "map_option asset_id (get_asset ''ASSET-0001'' demo_inventory) = Some (PyStr ''ASSET-0001'')
   \<and> fst (update_asset_changes ''ASSET-0001''
             [Replace_dict (demo_asset\<lparr>asset_id := PyStr ''HACKED''\<rparr>)] demo_inventory)
       = Inr True
   \<and> map_option asset_id
        (get_asset ''ASSET-0001''
           (snd (update_asset_changes ''ASSET-0001''
                   [Replace_dict (demo_asset\<lparr>asset_id := PyStr ''HACKED''\<rparr>)] demo_inventory)))
       = Some (PyStr ''HACKED'')"
proof -
  have "map_option asset_id (get_asset ''ASSET-0001'' demo_inventory)
          = Some (PyStr ''ASSET-0001'')"
    by (simp add: get_asset_def demo_inventory_eq demo_asset_def)
  then show ?thesis
    unfolding demo_replace_dict by (simp add: get_asset_def)
qed

text \<open>
  C6, as the code behaves, for changes that assign primitive values (\<open>update_asset\<close>, which is
  \<open>update_asset_changes\<close> on changes that hold no dictionary). In every state the public
  operations reach from the empty inventory with such changes, every stored asset carries
  the key it is stored under as its \<open>asset_id\<close>. \<open>update_asset\<close>, whatever the changes,
  leaves the \<open>asset_id\<close> of the asset under every key and the keys of the map as they were;
  changes that name \<open>asset_id\<close> are refused with \<open>TypeError\<close> and change nothing.
  \<open>delete_asset\<close> removes one key and leaves the assets under the others; \<open>add_asset\<close>
  changes at most the entry under the identifier it issues, which is no key yet.
\<close>

theorem asset_id_kept_by_value_changes:
  "update_asset aid kwargs self
     = update_asset_changes aid (map (\<lambda>kv. Assign (fst kv) (snd kv)) kwargs) self
   \<and> keys_are_ids (run opns CampusInventory_init)
   \<and> map_option asset_id (map_of (assets (snd (update_asset aid kwargs self))) k)
       = map_option asset_id (map_of (assets self) k)
   \<and> map fst (assets (snd (update_asset aid kwargs self))) = map fst (assets self)
   \<and> update_asset aid ((''asset_id'', v) # kwargs) self = (Inl TypeError, self)
   \<and> map_of (assets (snd (delete_asset aid self))) = (map_of (assets self))(aid := None)
   \<and> (map_of (assets (snd (add_asset nm mdl cat age bh cr hz self))) k = map_of (assets self) k
       \<or> k = format_asset_id (next_id self))
   \<and> format_asset_id (next_id (run opns CampusInventory_init))
       \<notin> fst ` set (assets (run opns CampusInventory_init))"
proof -
  have "map_of (assets (snd (delete_asset aid self))) = (map_of (assets self))(aid := None)"
    by (cases "map_of (assets self) aid")
       (auto simp: delete_asset_def Let_def delete_conv' split: option.splits)
  moreover have "format_asset_id (next_id (run opns CampusInventory_init))
       \<notin> fst ` set (assets (run opns CampusInventory_init))"
    using index_ok_reachable [of opns] by (auto simp: index_ok_def dest: format_asset_id_fresh)
  moreover have "update_asset aid ((''asset_id'', v) # kwargs) self = (Inl TypeError, self)"
    by (simp add: update_asset_def)
  moreover have "update_asset aid kwargs self
     = update_asset_changes aid (map (\<lambda>kv. Assign (fst kv) (snd kv)) kwargs) self"
    by (simp add: update_asset_changes_assign)
  ultimately show ?thesis
    using update_asset_asset_id update_asset_keys add_asset_other_keys keys_are_ids_reachable
    by blast
qed

section \<open>Deleting an asset\<close>



section \<open>The marketplace index\<close>

text \<open>
  C8. \<open>update_asset\<close> leaves the marketplace index as it is, whatever the identifier and
  the changes, also when the recomputed strategy becomes Marketplace (as for the
  demonstration asset once its battery health is 50); of the public operations only
  \<open>add_asset\<close> and \<open>delete_asset\<close> can change the index.
\<close>

theorem update_asset_keeps_marketplace_items:
  "marketplace_items (snd (update_asset aid kwargs self)) = marketplace_items self
   \<and> (modifies_index opn
        \<or> marketplace_items (snd (perform opn self)) = marketplace_items self)
   \<and> map_option disposal_strategy
        (get_asset ''ASSET-0001''
           (snd (update_asset ''ASSET-0001'' [(''battery_health'', PyInt 50)] demo_inventory)))
       = Some (PyStrategy MARKETPLACE)
   \<and> marketplace_items
        (snd (update_asset ''ASSET-0001'' [(''battery_health'', PyInt 50)] demo_inventory)) = []"
proof -
  have "modifies_index opn
        \<or> marketplace_items (snd (perform opn self)) = marketplace_items self"
    by (cases opn) (simp_all add: modifies_index_def marketplace_update_asset)
  moreover have "map_option disposal_strategy
        (get_asset ''ASSET-0001''
           (snd (update_asset ''ASSET-0001'' [(''battery_health'', PyInt 50)] demo_inventory)))
       = Some (PyStrategy MARKETPLACE)"
    unfolding demo_update_battery by (simp add: get_asset_def)
  moreover have "marketplace_items
        (snd (update_asset ''ASSET-0001'' [(''battery_health'', PyInt 50)] demo_inventory)) = []"
    unfolding demo_update_battery by (simp add: demo_inventory_eq)
  ultimately show ?thesis
    using marketplace_update_asset [of aid kwargs self] by blast
qed

section \<open>The snapshot\<close>

text \<open>
  C9, the claim as stated fails: the record exported for the demonstration asset has eleven
  fields, and \<open>last_used\<close>, an attribute of the asset, is not one of them.
\<close>

theorem export_to_json_omits_last_used_counterexample:
  "getattr demo_asset ''last_used'' = Some (Data PyNone)
   \<and> export_to_json ''2026-01-01T00:00:00'' demo_inventory
       = Inr (PyDict [(''assets'', PyDict [(''ASSET-0001'', exported_asset demo_asset RELOCATE)]),
                      (''marketplace'', PyList []),
                      (''timestamp'', Atom (PyStr ''2026-01-01T00:00:00''))])
   \<and> ''last_used'' \<notin> set (dict_keys (exported_asset demo_asset RELOCATE))"
proof -
  have "getattr demo_asset ''last_used'' = Some (Data PyNone)"
    by (simp add: getattr_def instance_dict_def demo_asset_def)
  moreover have "export_to_json ''2026-01-01T00:00:00'' demo_inventory
       = Inr (PyDict [(''assets'', PyDict [(''ASSET-0001'', exported_asset demo_asset RELOCATE)]),
                      (''marketplace'', PyList []),
                      (''timestamp'', Atom (PyStr ''2026-01-01T00:00:00''))])"
    by (simp add: export_to_json_def assets_to_dict_exportable [OF demo_exportable])
       (simp add: demo_inventory_eq exported_entry_def demo_asset_def exported_asset_def)
  moreover have "''last_used'' \<notin> set (dict_keys (exported_asset demo_asset RELOCATE))"
    by (simp add: dict_keys_def exported_asset_def)
  ultimately show ?thesis by blast
qed

text \<open>
  C9, as the code behaves. When no asset has its method \<open>to_dict\<close> shadowed and every
  asset's strategy is a member of \<open>DisposalStrategy\<close> (as after operations that completed),
  the snapshot is a record of exactly the three fields \<open>assets\<close>, \<open>marketplace\<close> and
  \<open>timestamp\<close>: \<open>assets\<close> maps each key of the asset map, in order, to a flat record of eleven
  attributes of the asset (all but \<open>last_used\<close>) with the strategy as its display string,
  \<open>marketplace\<close> is the marketplace index, \<open>timestamp\<close> the string the clock's \<open>isoformat\<close>
  gave. The inventory is only read.
\<close>

theorem export_to_json_snapshot:
  assumes "list_all exportable (map snd (assets self))"
  shows "export_to_json now_iso self
           = Inr (PyDict [(''assets'', PyDict (map exported_entry (assets self))),
                          (''marketplace'', PyList (map Atom (marketplace_items self))),
                          (''timestamp'', Atom (PyStr now_iso))])
   \<and> exported_entry (aid, asset\<lparr>disposal_strategy := PyStrategy s\<rparr>)
       = (aid, exported_asset asset s)
   \<and> dict_keys (exported_asset asset s)
       = [''asset_id'', ''name'', ''model'', ''category'', ''age_years'', ''battery_health'',
          ''can_refurbish'', ''is_hazardous'', ''status'', ''location'', ''disposal_strategy'']
   \<and> snd (perform (Export_to_json now_iso) self) = self"
  by (simp add: export_to_json_def assets_to_dict_exportable [OF assms] exported_entry_def
        exported_asset_def dict_keys_def)

theorem export_to_json_snapshot_witness:
  "list_all exportable (map snd (assets demo_inventory))
   \<and> export_to_json ''2026-01-01T00:00:00'' demo_inventory
       = Inr (PyDict [(''assets'', PyDict (map exported_entry (assets demo_inventory))),
                      (''marketplace'', PyList (map Atom (marketplace_items demo_inventory))),
                      (''timestamp'', Atom (PyStr ''2026-01-01T00:00:00''))])"
  using export_to_json_snapshot [OF demo_exportable, of "''2026-01-01T00:00:00''"]
    demo_exportable by simp

section \<open>The marketplace index never dangles\<close>

text \<open>
  C10. In every state that a sequence of public operations reaches from the empty
  inventory, the marketplace index holds no identifier twice, every identifier in it is a
  key of the asset map, and looking the listed identifiers up (as \<open>show_marketplace\<close> does)
  raises no \<open>KeyError\<close>.
\<close>

theorem marketplace_index_never_dangles:
  "distinct (marketplace_items (run opns CampusInventory_init))
   \<and> set (marketplace_items (run opns CampusInventory_init))
       \<subseteq> PyStr ` fst ` set (assets (run opns CampusInventory_init))
   \<and> raised (show_marketplace (run opns CampusInventory_init)) = None"
proof -
  have ok: "index_ok (run opns CampusInventory_init)" by (rule index_ok_reachable)
  then have "set (marketplace_items (run opns CampusInventory_init))
       \<subseteq> PyStr ` fst ` set (assets (run opns CampusInventory_init))"
    by (simp add: index_ok_def)
  then have "raised (show_marketplace (run opns CampusInventory_init)) = None"
    unfolding show_marketplace_def by (rule lookup_items_succeeds)
  with ok show ?thesis by (simp add: index_ok_def)
qed

end
